theory Spec2Isabelle
  imports Main "HOL-Library.Word"
begin

section \<open>JavaScript values as the handlers of server.js see them\<close>

text \<open>
  A JavaScript string is a sequence of 16-bit code units; the regular expression of the
  send-email handler has neither the u nor the i flag and so works on code units.
  \<open>asc\<close> embeds an ASCII literal of the source.
\<close>

type_synonym jstring = "16 word list"

definition asc :: "string \<Rightarrow> jstring" where
  "asc s = map (\<lambda>c. word_of_nat (of_char c)) s"

text \<open>
  \<open>express.json()\<close> fills \<open>req.body\<close> with a parsed JSON object (the empty object
  when the request carries no JSON), so the value of a body field is a JSON value, or
  \<open>undefined\<close> (\<open>None\<close>) when the key is absent. Numbers are the integers below
  \<open>10^21\<close> in magnitude, which print in plain decimal (fractions and larger numbers are
  outside this model; the handlers only test a number for zero and print it). An object
  is the list of its own properties.
\<close>

datatype json =
    JNull
  | JBool bool
  | JNum int
  | JStr jstring
  | JArr "json list"
  | JObj "(jstring \<times> json) list"

type_synonym jsval = "json option"

type_synonym json_object = "(jstring \<times> json) list"

text \<open>\<open>!v\<close> is \<open>\<not> truthy v\<close>: undefined, null, false, 0 and the empty string are falsy.\<close>

fun truthy :: "jsval \<Rightarrow> bool" where
  "truthy None = False"
| "truthy (Some JNull) = False"
| "truthy (Some (JBool b)) = b"
| "truthy (Some (JNum n)) = (n \<noteq> 0)"
| "truthy (Some (JStr s)) = (s \<noteq> [])"
| "truthy (Some (JArr xs)) = True"
| "truthy (Some (JObj kvs)) = True"

text \<open>\<open>a || b\<close>\<close>

definition js_or :: "jsval \<Rightarrow> jsval \<Rightarrow> jsval" where
  "js_or a b = (if truthy a then a else b)"

text \<open>
  \<open>String(v)\<close>, which \<open>RegExp.prototype.test\<close> applies to its argument. An integer
  prints in decimal; an array prints its elements joined by commas, null as the empty
  string; a parsed object prints as \<open>[object Object]\<close> through
  \<open>Object.prototype.toString\<close>, unless it has an own property \<open>toString\<close>, which
  after JSON parsing is never callable: the conversion then throws a TypeError (\<open>None\<close>).
\<close>

fun digits :: "nat \<Rightarrow> jstring" where
  "digits n = (if n < 10 then [word_of_nat (48 + n)]
               else digits (n div 10) @ [word_of_nat (48 + n mod 10)])"

definition number_to_string :: "int \<Rightarrow> jstring" where
  "number_to_string n = (if n < 0 then 0x2D # digits (nat (- n)) else digits (nat n))"

fun to_string :: "json \<Rightarrow> jstring option"
  and join :: "json list \<Rightarrow> jstring option" where
  "to_string JNull = Some (asc ''null'')"
| "to_string (JBool b) = Some (if b then asc ''true'' else asc ''false'')"
| "to_string (JNum n) = Some (number_to_string n)"
| "to_string (JStr s) = Some s"
| "to_string (JArr xs) = join xs"
| "to_string (JObj kvs) =
     (if asc ''toString'' \<in> fst ` set kvs then None else Some (asc ''[object Object]''))"
| "join [] = Some []"
| "join (x # xs) =
     (case (if x = JNull then Some [] else to_string x) of
        None \<Rightarrow> None
      | Some s \<Rightarrow> (if xs = [] then Some s
                   else (case join xs of None \<Rightarrow> None | Some r \<Rightarrow> Some (s @ 0x2C # r))))"

definition js_to_string :: "jsval \<Rightarrow> jstring option" where
  "js_to_string v = (case v of None \<Rightarrow> Some (asc ''undefined'') | Some j \<Rightarrow> to_string j)"

section \<open>The regular expression of the address check\<close>

text \<open>
  \<open>/^[^\s@]+@[^\s@]+\.[^\s@]+$/\<close>: a sequence of character classes, each taken once or
  one-or-more times, anchored at both ends. \<open>\s\<close> is the white space and the line
  terminators of ECMAScript.
\<close>

datatype cclass = NotSpaceAt | Lit "16 word"

datatype quant = Once | Plus

type_synonym regex = "(cclass \<times> quant) list"

definition is_space :: "16 word \<Rightarrow> bool" where
  "is_space c \<longleftrightarrow>
     c \<in> {0x09, 0x0A, 0x0B, 0x0C, 0x0D, 0x20, 0xA0, 0x1680, 0x2028, 0x2029,
          0x202F, 0x205F, 0x3000, 0xFEFF} \<or> (0x2000 \<le> c \<and> c \<le> 0x200A)"

fun in_class :: "cclass \<Rightarrow> 16 word \<Rightarrow> bool" where
  "in_class NotSpaceAt c = (\<not> is_space c \<and> c \<noteq> 0x40)"
| "in_class (Lit d) c = (c = d)"

fun rx_match :: "regex \<Rightarrow> jstring \<Rightarrow> bool" where
  "rx_match [] s = (s = [])"
| "rx_match ((k, q) # ps) [] = False"
| "rx_match ((k, Once) # ps) (c # cs) = (in_class k c \<and> rx_match ps cs)"
| "rx_match ((k, Plus) # ps) (c # cs) =
     (in_class k c \<and> (rx_match ((k, Plus) # ps) cs \<or> rx_match ps cs))"

definition emailRegex :: regex where
  "emailRegex = [(NotSpaceAt, Plus), (Lit 0x40, Once), (NotSpaceAt, Plus),
                 (Lit 0x2E, Once), (NotSpaceAt, Plus)]"

text \<open>\<open>r.test(v)\<close>: \<open>None\<close> when converting \<open>v\<close> to a string throws.\<close>

definition regex_test :: "regex \<Rightarrow> jsval \<Rightarrow> bool option" where
  "regex_test r v = map_option (rx_match r) (js_to_string v)"

section \<open>The transport, the process state and the responses\<close>

text \<open>
  nodemailer is not part of the repository. \<open>transporter.sendMail\<close> is a parameter:
  given the mail options it resolves with a message id and the relay's response, or
  rejects with an error that has a message and possibly a code.
\<close>

record mail_options =
  mail_from :: jsval
  mail_to :: jsval
  mail_subject :: jsval
  mail_html :: jsval
  mail_text :: jsval

record send_info =
  messageId :: jstring
  response :: jstring

record js_error =
  err_message :: jstring
  err_code :: "jstring option"

type_synonym transport = "mail_options \<Rightarrow> js_error + send_info"

text \<open>
  What a handler reads besides the request: the module variable \<open>transporter\<close> (null
  is \<open>None\<close>), the four variables of \<open>process.env\<close>, the clock as
  \<open>new Date().toISOString()\<close> prints it, and whether the loopback \<open>fetch\<close> of the
  test-email handler fails (\<open>Some\<close> of the error's message) or reaches the send-email
  handler of this process.
\<close>

record server =
  transporter :: "transport option"
  VITE_EMAIL_FROM_NAME :: "jstring option"
  VITE_EMAIL_FROM_ADDRESS :: "jstring option"
  VITE_SMTP_HOST :: "jstring option"
  VITE_SMTP_PORT :: "jstring option"
  now :: jstring
  fetch_error :: "jstring option"

record http_response =
  status :: nat
  body :: json_object

type_synonym request_body = "jstring \<rightharpoonup> json"

text \<open>\<open>s || d\<close> on a string that may be undefined, and \<open>${process.env.X}\<close>\<close>

definition str_or :: "jstring option \<Rightarrow> jstring \<Rightarrow> jstring" where
  "str_or v d = (case v of None \<Rightarrow> d | Some s \<Rightarrow> if s = [] then d else s)"

definition env_show :: "jstring option \<Rightarrow> jstring" where
  "env_show v = (case v of None \<Rightarrow> asc ''undefined'' | Some s \<Rightarrow> s)"

text \<open>\<open>res.status(n).json({ error: msg })\<close>\<close>

definition json_error :: "nat \<Rightarrow> string \<Rightarrow> http_response" where
  "json_error n msg = \<lparr>status = n, body = [(asc ''error'', JStr (asc msg))]\<rparr>"

section \<open>GET /api/health and GET /api/email-status\<close>

definition health :: "server \<Rightarrow> http_response \<times> mail_options list" where
  "health srv =
     (\<lparr>status = 200,
       body = [(asc ''status'', JStr (asc ''OK'')), (asc ''timestamp'', JStr (now srv))]\<rparr>, [])"

definition email_status :: "server \<Rightarrow> http_response \<times> mail_options list" where
  "email_status srv =
     (case transporter srv of
        None \<Rightarrow>
          (\<lparr>status = 503,
            body = [(asc ''status'', JStr (asc ''unavailable'')),
                    (asc ''error'', JStr (asc ''Email transporter not initialized''))]\<rparr>, [])
      | Some t \<Rightarrow>
          (\<lparr>status = 200,
            body = [(asc ''status'', JStr (asc ''available'')),
                    (asc ''timestamp'', JStr (now srv))]\<rparr>, []))"

section \<open>POST /api/send-email\<close>

text \<open>The default sender: \<open>"name" <address>\<close>.\<close>

definition default_from :: "server \<Rightarrow> jstring" where
  "default_from srv =
     0x22 # str_or (VITE_EMAIL_FROM_NAME srv) (asc ''Expense Manager Pro'')
       @ 0x22 # asc '' <''
       @ str_or (VITE_EMAIL_FROM_ADDRESS srv) (asc ''noreply@expensemanagerpro.com'')
       @ asc ''>''"

definition mailOptions :: "server \<Rightarrow> request_body \<Rightarrow> mail_options" where
  "mailOptions srv b =
     \<lparr>mail_from = js_or (b (asc ''from'')) (Some (JStr (default_from srv))),
      mail_to = b (asc ''to''),
      mail_subject = b (asc ''subject''),
      mail_html = b (asc ''html''),
      mail_text = js_or (b (asc ''text'')) (Some JNull)\<rparr>"

text \<open>The catch block of the handler.\<close>

definition send_failure :: "js_error \<Rightarrow> http_response" where
  "send_failure e =
     \<lparr>status = 500,
      body = [(asc ''error'', JStr (asc ''Failed to send email'')),
              (asc ''details'', JStr (err_message e)),
              (asc ''code'', JStr (str_or (err_code e) (asc ''EMAIL_SEND_ERROR'')))]\<rparr>"

definition type_error :: js_error where
  "type_error =
     \<lparr>err_message = asc ''Cannot convert object to primitive value'', err_code = None\<rparr>"

text \<open>
  The handler returns its response and the list of messages it handed to
  \<open>transporter.sendMail\<close>, in order.
\<close>

definition send_email :: "server \<Rightarrow> request_body \<Rightarrow> http_response \<times> mail_options list" where
  "send_email srv b =
     (case transporter srv of
        None \<Rightarrow>
          (json_error 503 ''Email service unavailable - transporter not initialized'', [])
      | Some t \<Rightarrow>
          if \<not> truthy (b (asc ''to'')) \<or> \<not> truthy (b (asc ''subject''))
             \<or> \<not> truthy (b (asc ''html''))
          then
            (json_error 400 ''Missing required fields: to, subject, and html are required'', [])
          else
            (case regex_test emailRegex (b (asc ''to'')) of
               None \<Rightarrow> (send_failure type_error, [])
             | Some False \<Rightarrow> (json_error 400 ''Invalid email address format'', [])
             | Some True \<Rightarrow>
                 (case t (mailOptions srv b) of
                    Inr result \<Rightarrow>
                      (\<lparr>status = 200,
                        body = [(asc ''success'', JBool True),
                                (asc ''messageId'', JStr (messageId result)),
                                (asc ''response'', JStr (response result))]\<rparr>,
                       [mailOptions srv b])
                  | Inl e \<Rightarrow> (send_failure e, [mailOptions srv b]))))"

text \<open>A request that passes both checks of the handler.\<close>

definition valid_request :: "request_body \<Rightarrow> bool" where
  "valid_request b \<longleftrightarrow>
     truthy (b (asc ''to'')) \<and> truthy (b (asc ''subject'')) \<and> truthy (b (asc ''html''))
     \<and> regex_test emailRegex (b (asc ''to'')) = Some True"

section \<open>POST /api/test-email\<close>

definition test_html_lines :: "server \<Rightarrow> jstring list" where
  \<open>test_html_lines srv =
     [asc ''        <!DOCTYPE html>'',
      asc ''        <html>'',
      asc ''        <head>'',
      asc ''          <meta charset="utf-8">'',
      asc ''          <style>'',
      asc ''            body { font-family: Arial, sans-serif; line-height: 1.6; color: #333; }'',
      asc ''            .container { max-width: 600px; margin: 0 auto; padding: 20px; }'',
      asc ''            .success { background: #D1FAE5; border: 1px solid #10B981; padding: 15px; border-radius: 6px; }'',
      asc ''          </style>'',
      asc ''        </head>'',
      asc ''        <body>'',
      asc ''          <div class="container">'',
      asc ''            <div class="success">'',
      asc ''              <h2>'' @ [0x2705] @ asc '' Backend Email Service Test Successful!</h2>'',
      asc ''              <p>This is a test email to verify that your backend email service is working correctly.</p>'',
      asc ''              <p><strong>Service Details:</strong></p>'',
      asc ''              <ul>'',
      asc ''                <li>Backend API: Active</li>'',
      asc ''                <li>SMTP Host: '' @ env_show (VITE_SMTP_HOST srv) @ asc ''</li>'',
      asc ''                <li>SMTP Port: '' @ env_show (VITE_SMTP_PORT srv) @ asc ''</li>'',
      asc ''                <li>From Name: '' @ env_show (VITE_EMAIL_FROM_NAME srv) @ asc ''</li>'',
      asc ''                <li>From Address: '' @ env_show (VITE_EMAIL_FROM_ADDRESS srv) @ asc ''</li>'',
      asc ''              </ul>'',
      asc ''              <p>Timestamp: '' @ now srv @ asc ''</p>'',
      asc ''            </div>'',
      asc ''          </div>'',
      asc ''        </body>'',
      asc ''        </html>'']\<close>

text \<open>The template literal: a line feed before each line, then the indentation of the
  closing backquote.\<close>

definition test_html :: "server \<Rightarrow> jstring" where
  "test_html srv = concat (map (\<lambda>l. 0x0A # l) (test_html_lines srv)) @ 0x0A # asc ''      ''"

text \<open>
  The body that the send-email handler parses out of \<open>JSON.stringify(emailData)\<close>:
  the three keys, \<open>to\<close> left out when its value is undefined.
\<close>

definition emailData :: "server \<Rightarrow> jsval \<Rightarrow> request_body" where
  "emailData srv testEmail =
     (Map.empty
        (asc ''to'' := testEmail,
         asc ''subject'' \<mapsto> JStr (asc ''Test Email - Expense Manager Pro Backend Service''),
         asc ''html'' \<mapsto> JStr (test_html srv)))"

text \<open>\<open>response.ok\<close>\<close>

definition ok :: "http_response \<Rightarrow> bool" where
  "ok r \<longleftrightarrow> 200 \<le> status r \<and> status r \<le> 299"

text \<open>
  The message of \<open>new Error(errorData.error || 'Failed to send test email')\<close>; the
  constructor converts its argument to a string, and a TypeError thrown by that
  conversion reaches the same catch block.
\<close>

definition thrown_message :: "json_object \<Rightarrow> jstring" where
  "thrown_message errorData =
     (if truthy (map_of errorData (asc ''error''))
      then (case js_to_string (map_of errorData (asc ''error'')) of
              Some s \<Rightarrow> s
            | None \<Rightarrow> err_message type_error)
      else asc ''Failed to send test email'')"

text \<open>The catch block of the handler.\<close>

definition test_failure :: "jstring \<Rightarrow> http_response" where
  "test_failure msg =
     \<lparr>status = 500,
      body = [(asc ''error'', JStr (asc ''Failed to send test email'')),
              (asc ''details'', JStr msg)]\<rparr>"

definition test_email :: "server \<Rightarrow> request_body \<Rightarrow> http_response \<times> mail_options list" where
  "test_email srv b =
     (if \<not> truthy (b (asc ''testEmail''))
      then (json_error 400 ''testEmail is required'', [])
      else
        (case fetch_error srv of
           Some msg \<Rightarrow> (test_failure msg, [])
         | None \<Rightarrow>
             (case send_email srv (emailData srv (b (asc ''testEmail''))) of
                (resp, sent) \<Rightarrow>
                  if \<not> ok resp then (test_failure (thrown_message (body resp)), sent)
                  else (\<lparr>status = 200, body = body resp\<rparr>, sent))))"

section \<open>The routes\<close>

text \<open>A request, by the route that Express matched it to; the last is the 404 handler.\<close>

datatype request =
    GetHealth
  | GetEmailStatus
  | PostSendEmail request_body
  | PostTestEmail request_body
  | Unmatched jstring

definition not_found :: "jstring \<Rightarrow> http_response \<times> mail_options list" where
  "not_found path =
     (\<lparr>status = 404,
       body = [(asc ''error'', JStr (asc ''Endpoint not found'')), (asc ''path'', JStr path)]\<rparr>,
      [])"

fun handle :: "server \<Rightarrow> request \<Rightarrow> http_response \<times> mail_options list" where
  "handle srv GetHealth = health srv"
| "handle srv GetEmailStatus = email_status srv"
| "handle srv (PostSendEmail b) = send_email srv b"
| "handle srv (PostTestEmail b) = test_email srv b"
| "handle srv (Unmatched path) = not_found path"

section \<open>Example servers and requests\<close>

definition working_transport :: transport where
  "working_transport m = Inr \<lparr>messageId = asc ''abc123'', response = asc ''250 OK''\<rparr>"

definition refusing_transport :: transport where
  "refusing_transport m = Inl \<lparr>err_message = asc ''Connection refused'', err_code = None\<rparr>"

definition empty_code_transport :: transport where
  "empty_code_transport m =
     Inl \<lparr>err_message = asc ''Connection refused'', err_code = Some []\<rparr>"

definition example_server :: "transport option \<Rightarrow> server" where
  "example_server tr =
     \<lparr>transporter = tr,
      VITE_EMAIL_FROM_NAME = None,
      VITE_EMAIL_FROM_ADDRESS = None,
      VITE_SMTP_HOST = None,
      VITE_SMTP_PORT = None,
      now = asc ''2024-01-01T00:00:00.000Z'',
      fetch_error = None\<rparr>"

definition example_body :: request_body where
  "example_body =
     [asc ''to'' \<mapsto> JStr (asc ''user@example.com''),
      asc ''subject'' \<mapsto> JStr (asc ''Hi''),
      asc ''html'' \<mapsto> JStr (asc ''<p>hi</p>'')]"

definition example_test_body :: request_body where
  "example_test_body = [asc ''testEmail'' \<mapsto> JStr (asc ''qa@example.com'')]"

definition bad_test_body :: request_body where
  "bad_test_body = [asc ''testEmail'' \<mapsto> JStr (asc ''not-an-email'')]"

definition bad_to_body :: request_body where
  "bad_to_body = example_body (asc ''to'' \<mapsto> JStr (asc ''not-an-email''))"

definition empty_from_body :: request_body where
  "empty_from_body = example_body (asc ''from'' \<mapsto> JStr [])"

definition with_from_body :: request_body where
  "with_from_body = example_body (asc ''from'' \<mapsto> JStr (asc ''Ann <ann@example.com>''))"

definition empty_html_body :: request_body where
  "empty_html_body = example_body (asc ''html'' \<mapsto> JStr [])"

section \<open>Facts about the embedding of strings\<close>

lemma asc_Nil [simp]: "asc [] = []"
  by (simp add: asc_def)

lemma asc_eq_Nil_iff [simp]: "asc s = [] \<longleftrightarrow> s = []"
  by (simp add: asc_def)

lemma of_char_lt_65536: "(of_char c :: nat) < 2 ^ 16"
proof -
  have "(of_char c :: nat) \<in> range of_char" by simp
  then have "(of_char c :: nat) < 256" unfolding range_nat_of_char by simp
  also have "(256::nat) < 2 ^ 16" by simp
  finally show ?thesis .
qed

lemma asc_eq_iff [simp]: "asc s = asc t \<longleftrightarrow> s = t"
proof -
  have "inj (\<lambda>c::char. (word_of_nat (of_char c) :: 16 word))"
  proof (rule injI)
    fix c d :: char
    assume h: "(word_of_nat (of_char c) :: 16 word) = word_of_nat (of_char d)"
    have "unat (word_of_nat (of_char c) :: 16 word) = unat (word_of_nat (of_char d) :: 16 word)"
      using h by simp
    then have "(of_char c :: nat) = of_char d"
      using of_char_lt_65536 [of c] of_char_lt_65536 [of d]
      by (simp add: unat_of_nat take_bit_nat_eq_self)
    then show "c = d" by simp
  qed
  then show ?thesis
    by (simp add: asc_def)
qed

section \<open>The strings the expression matches\<close>

lemma rx_match_Once:
  "rx_match ((k, Once) # ps) s \<longleftrightarrow> (\<exists>c r. s = c # r \<and> in_class k c \<and> rx_match ps r)"
  by (cases s) simp_all

lemma rx_match_Plus:
  "rx_match ((k, Plus) # ps) s \<longleftrightarrow>
     (\<exists>a r. a \<noteq> [] \<and> s = a @ r \<and> (\<forall>c \<in> set a. in_class k c) \<and> rx_match ps r)"
proof (induction s)
  case Nil
  then show ?case by simp
next
  case (Cons x xs)
  show ?case
  proof
    assume "rx_match ((k, Plus) # ps) (x # xs)"
    then have x: "in_class k x" and d: "rx_match ((k, Plus) # ps) xs \<or> rx_match ps xs"
      by simp_all
    from d show "\<exists>a r. a \<noteq> [] \<and> x # xs = a @ r \<and> (\<forall>c \<in> set a. in_class k c) \<and> rx_match ps r"
    proof
      assume "rx_match ((k, Plus) # ps) xs"
      then obtain a r where "a \<noteq> []" "xs = a @ r" "\<forall>c \<in> set a. in_class k c" "rx_match ps r"
        using Cons.IH by blast
      then have "x # a \<noteq> [] \<and> x # xs = (x # a) @ r \<and> (\<forall>c \<in> set (x # a). in_class k c) \<and> rx_match ps r"
        using x by simp
      then show ?thesis by blast
    next
      assume "rx_match ps xs"
      then have "[x] \<noteq> [] \<and> x # xs = [x] @ xs \<and> (\<forall>c \<in> set [x]. in_class k c) \<and> rx_match ps xs"
        using x by simp
      then show ?thesis by blast
    qed
  next
    assume "\<exists>a r. a \<noteq> [] \<and> x # xs = a @ r \<and> (\<forall>c \<in> set a. in_class k c) \<and> rx_match ps r"
    then obtain a r where a: "a \<noteq> []" "x # xs = a @ r" "\<forall>c \<in> set a. in_class k c" "rx_match ps r"
      by blast
    then obtain a' where a': "a = x # a'" "xs = a' @ r"
      by (cases a) auto
    show "rx_match ((k, Plus) # ps) (x # xs)"
    proof (cases "a' = []")
      case True
      then show ?thesis using a a' by simp
    next
      case False
      then have "rx_match ((k, Plus) # ps) xs"
        using Cons.IH a a' by auto
      then show ?thesis using a a' by simp
    qed
  qed
qed

lemma emailRegex_matches_iff:
  "rx_match emailRegex s \<longleftrightarrow>
     (\<exists>a b c. s = a @ 0x40 # b @ 0x2E # c \<and> a \<noteq> [] \<and> b \<noteq> [] \<and> c \<noteq> []
        \<and> (\<forall>x \<in> set (a @ b @ c). \<not> is_space x \<and> x \<noteq> 0x40))"
  (is "?L \<longleftrightarrow> ?R")
proof
  assume ?L
  then obtain a r1 where a: "a \<noteq> []" "s = a @ r1" "\<forall>x \<in> set a. in_class NotSpaceAt x"
      and r1: "rx_match [(Lit 0x40, Once), (NotSpaceAt, Plus), (Lit 0x2E, Once), (NotSpaceAt, Plus)] r1"
    unfolding emailRegex_def rx_match_Plus by blast
  from r1 obtain r2 where r2: "r1 = 0x40 # r2"
      "rx_match [(NotSpaceAt, Plus), (Lit 0x2E, Once), (NotSpaceAt, Plus)] r2"
    unfolding rx_match_Once by auto
  from r2(2) obtain b r3 where b: "b \<noteq> []" "r2 = b @ r3" "\<forall>x \<in> set b. in_class NotSpaceAt x"
      and r3: "rx_match [(Lit 0x2E, Once), (NotSpaceAt, Plus)] r3"
    unfolding rx_match_Plus by blast
  from r3 obtain r4 where r4: "r3 = 0x2E # r4" "rx_match [(NotSpaceAt, Plus)] r4"
    unfolding rx_match_Once by auto
  from r4(2) obtain c r5 where c: "c \<noteq> []" "r4 = c @ r5" "\<forall>x \<in> set c. in_class NotSpaceAt x"
      and r5: "rx_match [] r5"
    unfolding rx_match_Plus by blast
  have "s = a @ 0x40 # b @ 0x2E # c"
    using a r2 b r4 c r5 by simp
  moreover have "\<forall>x \<in> set (a @ b @ c). \<not> is_space x \<and> x \<noteq> 0x40"
    using a b c by auto
  ultimately show ?R using a b c by blast
next
  assume ?R
  then obtain a b c where s: "s = a @ 0x40 # b @ 0x2E # c" and n: "a \<noteq> []" "b \<noteq> []" "c \<noteq> []"
      and k: "\<forall>x \<in> set (a @ b @ c). \<not> is_space x \<and> x \<noteq> 0x40"
    by blast
  have c: "rx_match [(NotSpaceAt, Plus)] c"
    unfolding rx_match_Plus using n k by (intro exI [of _ c] exI [of _ "[]"]) auto
  then have "rx_match [(Lit 0x2E, Once), (NotSpaceAt, Plus)] (0x2E # c)"
    by simp
  then have "rx_match [(NotSpaceAt, Plus), (Lit 0x2E, Once), (NotSpaceAt, Plus)] (b @ 0x2E # c)"
    unfolding rx_match_Plus [of NotSpaceAt "[(Lit 0x2E, Once), (NotSpaceAt, Plus)]"]
    using n k by (intro exI [of _ b] exI [of _ "0x2E # c"]) auto
  then have "rx_match [(Lit 0x40, Once), (NotSpaceAt, Plus), (Lit 0x2E, Once), (NotSpaceAt, Plus)]
      (0x40 # b @ 0x2E # c)"
    by simp
  then show ?L
    unfolding emailRegex_def s
      rx_match_Plus [of NotSpaceAt "[(Lit 0x40, Once), (NotSpaceAt, Plus), (Lit 0x2E, Once), (NotSpaceAt, Plus)]"]
    using n k by (intro exI [of _ a] exI [of _ "0x40 # b @ 0x2E # c"]) auto
qed

section \<open>What the address check accepts\<close>

lemma rx_undefined: "\<not> rx_match emailRegex (asc ''undefined'')"
  by (simp add: emailRegex_def asc_def is_space_def)

lemma rx_null: "\<not> rx_match emailRegex (asc ''null'')"
  by (simp add: emailRegex_def asc_def is_space_def)

lemma rx_false: "\<not> rx_match emailRegex (asc ''false'')"
  by (simp add: emailRegex_def asc_def is_space_def)

lemma rx_zero: "\<not> rx_match emailRegex (number_to_string 0)"
  by (simp add: emailRegex_def number_to_string_def is_space_def)

lemma rx_empty: "\<not> rx_match emailRegex []"
  by (simp add: emailRegex_def)

text \<open>No falsy value prints as a string that the expression matches.\<close>

lemma regex_match_truthy:
  assumes "regex_test emailRegex v = Some True"
  shows "truthy v"
proof (cases v)
  case None
  with assms show ?thesis
    by (simp add: regex_test_def js_to_string_def rx_undefined)
next
  case (Some j)
  with assms show ?thesis
    by (cases j) (auto simp: regex_test_def js_to_string_def rx_null rx_false rx_zero rx_empty
        split: if_splits)
qed

lemma truthy_present: "truthy v \<Longrightarrow> v \<noteq> None"
  by (cases v) simp_all

section \<open>The paths through the send-email handler\<close>

lemma send_email_valid:
  assumes "transporter srv = Some t"
    and "truthy (b (asc ''subject''))" and "truthy (b (asc ''html''))"
    and "regex_test emailRegex (b (asc ''to'')) = Some True"
  shows "send_email srv b =
           (case t (mailOptions srv b) of
              Inr result \<Rightarrow>
                (\<lparr>status = 200,
                  body = [(asc ''success'', JBool True),
                          (asc ''messageId'', JStr (messageId result)),
                          (asc ''response'', JStr (response result))]\<rparr>,
                 [mailOptions srv b])
            | Inl e \<Rightarrow> (send_failure e, [mailOptions srv b]))"
  using assms regex_match_truthy [of "b (asc ''to'')"]
  by (simp add: send_email_def)

lemma send_email_sent:
  assumes "m \<in> set (snd (send_email srv b))"
  shows "m = mailOptions srv b \<and> truthy (b (asc ''to'')) \<and> truthy (b (asc ''subject''))
       \<and> truthy (b (asc ''html'')) \<and> regex_test emailRegex (b (asc ''to'')) = Some True"
  using assms
  by (auto simp: send_email_def split: option.splits if_splits bool.splits sum.splits)

lemma send_email_unprintable_to:
  assumes "transporter srv = Some t"
    and "truthy (b (asc ''to''))" and "truthy (b (asc ''subject''))"
    and "truthy (b (asc ''html''))"
    and "regex_test emailRegex (b (asc ''to'')) = None"
  shows "send_email srv b = (send_failure type_error, [])"
  using assms by (simp add: send_email_def)

lemma send_email_at_most_once: "length (snd (send_email srv b)) \<le> 1"
  by (simp add: send_email_def split: option.splits bool.splits sum.splits)

lemma example_regex: "regex_test emailRegex (example_body (asc ''to'')) = Some True"
  by (simp add: example_body_def regex_test_def js_to_string_def emailRegex_def asc_def
      is_space_def)

lemma example_valid: "valid_request example_body"
  using example_regex by (simp add: valid_request_def) (simp add: example_body_def)

lemma send_email_delivers:
  assumes "transporter srv = Some t" and "valid_request b"
  shows "snd (send_email srv b) = [mailOptions srv b]"
  using assms by (simp add: valid_request_def send_email_valid split: sum.splits)

lemma send_email_ok_200:
  assumes "ok (fst (send_email srv b))"
  shows "status (fst (send_email srv b)) = 200"
  using assms
  by (auto simp: send_email_def ok_def json_error_def send_failure_def
      split: option.splits if_splits bool.splits sum.splits)

lemma send_email_not_ok_error:
  assumes "\<not> ok (fst (send_email srv b))"
  shows "\<exists>msg. msg \<noteq> [] \<and> map_of (body (fst (send_email srv b))) (asc ''error'') = Some (JStr msg)"
  using assms
  by (auto simp: send_email_def ok_def json_error_def send_failure_def
      split: option.splits if_splits bool.splits sum.splits)

lemma thrown_message_string:
  assumes "map_of errorData (asc ''error'') = Some (JStr msg)" and "msg \<noteq> []"
  shows "thrown_message errorData = msg"
  using assms by (simp add: thrown_message_def js_to_string_def)

lemma test_email_unfold:
  assumes "truthy (b (asc ''testEmail''))" and "fetch_error srv = None"
  shows "test_email srv b =
           (if ok (fst (send_email srv (emailData srv (b (asc ''testEmail'')))))
            then (\<lparr>status = 200,
                   body = body (fst (send_email srv (emailData srv (b (asc ''testEmail'')))))\<rparr>,
                  snd (send_email srv (emailData srv (b (asc ''testEmail'')))))
            else (test_failure
                    (thrown_message
                       (body (fst (send_email srv (emailData srv (b (asc ''testEmail''))))))),
                  snd (send_email srv (emailData srv (b (asc ''testEmail''))))))"
  using assms by (simp add: test_email_def split: prod.splits)

section \<open>The test-email handler and the routes\<close>

lemma test_html_not_Nil: "test_html srv \<noteq> []"
  by (simp add: test_html_def)

lemma emailData_fields:
  "emailData srv v (asc ''to'') = v"
  "emailData srv v (asc ''subject'')
     = Some (JStr (asc ''Test Email - Expense Manager Pro Backend Service''))"
  "emailData srv v (asc ''html'') = Some (JStr (test_html srv))"
  "emailData srv v (asc ''from'') = None"
  "emailData srv v (asc ''text'') = None"
  by (simp_all add: emailData_def)

lemma test_email_sent:
  "set (snd (test_email srv b)) \<subseteq> set (snd (send_email srv (emailData srv (b (asc ''testEmail'')))))"
  by (simp add: test_email_def split: option.splits prod.splits)

lemma handle_sent:
  assumes "m \<in> set (snd (handle srv req))"
  shows "\<exists>b. m \<in> set (snd (send_email srv b))"
proof (cases req)
  case (PostSendEmail b)
  with assms show ?thesis by auto
next
  case (PostTestEmail b)
  with assms test_email_sent [of srv b] show ?thesis by auto
qed (use assms in \<open>simp_all add: health_def email_status_def not_found_def split: option.splits\<close>)

lemma test_email_snd:
  assumes "truthy (b (asc ''testEmail''))" and "fetch_error srv = None"
  shows "snd (test_email srv b) = snd (send_email srv (emailData srv (b (asc ''testEmail''))))"
  using assms by (simp add: test_email_def split: prod.splits)

section \<open>The example requests\<close>

lemma example_test_regex:
  "regex_test emailRegex (Some (JStr (asc ''qa@example.com''))) = Some True"
  by (simp add: regex_test_def js_to_string_def emailRegex_def asc_def is_space_def)

lemma example_test_valid:
  "valid_request (emailData srv (Some (JStr (asc ''qa@example.com''))))"
  using example_test_regex by (simp add: valid_request_def emailData_fields test_html_not_Nil)

lemma example_test_sent:
  "snd (handle (example_server (Some working_transport)) (PostTestEmail example_test_body))
     = [mailOptions (example_server (Some working_transport))
          (emailData (example_server (Some working_transport))
             (Some (JStr (asc ''qa@example.com''))))]"
proof -
  let ?srv = "example_server (Some working_transport)"
  let ?d = "emailData ?srv (Some (JStr (asc ''qa@example.com'')))"
  have t: "transporter ?srv = Some working_transport" and f: "fetch_error ?srv = None"
    by (simp_all add: example_server_def)
  have e: "example_test_body (asc ''testEmail'') = Some (JStr (asc ''qa@example.com''))"
    by (simp add: example_test_body_def)
  have "snd (send_email ?srv ?d) = [mailOptions ?srv ?d]"
    using example_test_valid [of ?srv] send_email_valid [OF t, of ?d]
    by (simp add: valid_request_def working_transport_def)
  then show ?thesis
    using test_email_snd [of example_test_body ?srv] e f by simp
qed

lemma empty_from_valid: "valid_request empty_from_body"
  using example_valid by (simp add: valid_request_def empty_from_body_def)

lemma example_default_from:
  "default_from (example_server tr)
     = 0x22 # asc ''Expense Manager Pro'' @ 0x22 # asc '' <noreply@expensemanagerpro.com>''"
  by (simp add: default_from_def example_server_def str_or_def asc_def)

lemma with_from_valid: "valid_request with_from_body"
  using example_valid by (simp add: valid_request_def with_from_body_def)

lemma bad_to_regex: "regex_test emailRegex (Some (JStr (asc ''not-an-email''))) = Some False"
  by (simp add: regex_test_def js_to_string_def emailRegex_def asc_def is_space_def)

lemma refused_send:
  "fst (send_email (example_server (Some refusing_transport))
          (emailData (example_server (Some refusing_transport))
             (Some (JStr (asc ''qa@example.com'')))))
     = \<lparr>status = 500,
        body = [(asc ''error'', JStr (asc ''Failed to send email'')),
                (asc ''details'', JStr (asc ''Connection refused'')),
                (asc ''code'', JStr (asc ''EMAIL_SEND_ERROR''))]\<rparr>"
proof -
  let ?srv = "example_server (Some refusing_transport)"
  have t: "transporter ?srv = Some refusing_transport"
    by (simp add: example_server_def)
  show ?thesis
    using example_test_valid [of ?srv]
      send_email_valid [OF t, of "emailData ?srv (Some (JStr (asc ''qa@example.com'')))"]
    by (simp add: valid_request_def refusing_transport_def send_failure_def str_or_def)
qed

lemma bad_send:
  "fst (send_email (example_server (Some working_transport))
          (emailData (example_server (Some working_transport))
             (Some (JStr (asc ''not-an-email'')))))
     = \<lparr>status = 400, body = [(asc ''error'', JStr (asc ''Invalid email address format''))]\<rparr>"
proof -
  have "transporter (example_server (Some working_transport)) = Some working_transport"
    by (simp add: example_server_def)
  then show ?thesis
    using bad_to_regex
    by (simp add: send_email_def emailData_fields test_html_not_Nil json_error_def)
qed

section \<open>Claims\<close>

text \<open>
  C1 (as stated: the test-email handler propagates success and failure like the
  send-email handler called on the diagnostic message, with the same status code and the
  same body fields). This fails: when the transport refuses the message the send-email
  response carries \<open>details\<close> "Connection refused" and a \<open>code\<close>, the test-email
  response carries the send-email \<open>error\<close> text as its \<open>details\<close> and no code; an
  address that fails the format check gives 400 from send-email and 500 from test-email.
\<close>

theorem C1_counterexample:
  "fst (test_email (example_server (Some refusing_transport)) example_test_body)
     = \<lparr>status = 500,
        body = [(asc ''error'', JStr (asc ''Failed to send test email'')),
                (asc ''details'', JStr (asc ''Failed to send email''))]\<rparr>
   \<and> fst (send_email (example_server (Some refusing_transport))
          (emailData (example_server (Some refusing_transport))
             (example_test_body (asc ''testEmail''))))
     = \<lparr>status = 500,
        body = [(asc ''error'', JStr (asc ''Failed to send email'')),
                (asc ''details'', JStr (asc ''Connection refused'')),
                (asc ''code'', JStr (asc ''EMAIL_SEND_ERROR''))]\<rparr>
   \<and> fst (test_email (example_server (Some working_transport)) bad_test_body)
     = \<lparr>status = 500,
        body = [(asc ''error'', JStr (asc ''Failed to send test email'')),
                (asc ''details'', JStr (asc ''Invalid email address format''))]\<rparr>
   \<and> fst (send_email (example_server (Some working_transport))
          (emailData (example_server (Some working_transport))
             (bad_test_body (asc ''testEmail''))))
     = \<lparr>status = 400, body = [(asc ''error'', JStr (asc ''Invalid email address format''))]\<rparr>
   \<and> fst (test_email (example_server (Some refusing_transport)) example_test_body)
     \<noteq> fst (send_email (example_server (Some refusing_transport))
            (emailData (example_server (Some refusing_transport))
               (example_test_body (asc ''testEmail''))))
   \<and> status (fst (test_email (example_server (Some working_transport)) bad_test_body))
     \<noteq> status (fst (send_email (example_server (Some working_transport))
            (emailData (example_server (Some working_transport))
               (bad_test_body (asc ''testEmail'')))))"
proof -
  have e: "example_test_body (asc ''testEmail'') = Some (JStr (asc ''qa@example.com''))"
    and b: "bad_test_body (asc ''testEmail'') = Some (JStr (asc ''not-an-email''))"
    by (simp_all add: example_test_body_def bad_test_body_def)
  have f: "fetch_error (example_server tr) = None" for tr
    by (simp add: example_server_def)
  have "fst (test_email (example_server (Some refusing_transport)) example_test_body)
     = \<lparr>status = 500,
        body = [(asc ''error'', JStr (asc ''Failed to send test email'')),
                (asc ''details'', JStr (asc ''Failed to send email''))]\<rparr>"
    using refused_send
    by (simp add: test_email_unfold e f ok_def test_failure_def thrown_message_def
        js_to_string_def)
  moreover have "fst (test_email (example_server (Some working_transport)) bad_test_body)
     = \<lparr>status = 500,
        body = [(asc ''error'', JStr (asc ''Failed to send test email'')),
                (asc ''details'', JStr (asc ''Invalid email address format''))]\<rparr>"
    using bad_send
    by (simp add: test_email_unfold b f ok_def test_failure_def thrown_message_def
        js_to_string_def)
  ultimately show ?thesis
    using refused_send bad_send by (simp add: e b)
qed

text \<open>
  C1 (amended). For a truthy \<open>testEmail\<close>, the loopback fetch reaching the send-email
  handler: the test-email handler hands the transport exactly what the send-email
  handler does on the diagnostic message; when the send-email response is a success the
  test-email response is the same response (200 and the same body); when it is not, the
  test-email response is 500 with \<open>error\<close> "Failed to send test email" and \<open>details\<close>
  the \<open>error\<close> string of the send-email response, whatever its status, details and code
  were.
\<close>

theorem C1_test_email_propagation:
  assumes "truthy (b (asc ''testEmail''))" and "fetch_error srv = None"
  shows "snd (test_email srv b) = snd (send_email srv (emailData srv (b (asc ''testEmail''))))
       \<and> (ok (fst (send_email srv (emailData srv (b (asc ''testEmail'')))))
            \<longrightarrow> fst (test_email srv b)
                  = fst (send_email srv (emailData srv (b (asc ''testEmail'')))))
       \<and> (\<not> ok (fst (send_email srv (emailData srv (b (asc ''testEmail'')))))
            \<longrightarrow> (\<exists>msg. map_of (body (fst (send_email srv (emailData srv (b (asc ''testEmail''))))))
                           (asc ''error'') = Some (JStr msg)
                       \<and> fst (test_email srv b)
                           = \<lparr>status = 500,
                              body = [(asc ''error'', JStr (asc ''Failed to send test email'')),
                                      (asc ''details'', JStr msg)]\<rparr>))"
proof -
  let ?r = "fst (send_email srv (emailData srv (b (asc ''testEmail''))))"
  note u = test_email_unfold [of b srv, OF assms]
  have s: "snd (test_email srv b) = snd (send_email srv (emailData srv (b (asc ''testEmail''))))"
    using u by simp
  have o: "fst (test_email srv b) = ?r" if "ok ?r"
  proof -
    have "status ?r = 200" using that by (rule send_email_ok_200)
    then have "\<lparr>status = 200, body = body ?r\<rparr> = ?r" by (cases ?r) simp
    then show ?thesis using u that by simp
  qed
  have n: "\<exists>msg. map_of (body ?r) (asc ''error'') = Some (JStr msg)
             \<and> fst (test_email srv b)
                 = \<lparr>status = 500,
                    body = [(asc ''error'', JStr (asc ''Failed to send test email'')),
                            (asc ''details'', JStr msg)]\<rparr>" if nok: "\<not> ok ?r"
  proof -
    obtain msg where m: "msg \<noteq> []" "map_of (body ?r) (asc ''error'') = Some (JStr msg)"
      using send_email_not_ok_error [OF nok] by blast
    then have "thrown_message (body ?r) = msg" by (simp add: thrown_message_string)
    then have "fst (test_email srv b) = test_failure msg" using u nok by simp
    then show ?thesis using m by (simp add: test_failure_def)
  qed
  show ?thesis using s o n by blast
qed

theorem C1_witness:
  "fst (test_email (example_server (Some working_transport)) example_test_body)
     = \<lparr>status = 200,
        body = [(asc ''success'', JBool True), (asc ''messageId'', JStr (asc ''abc123'')),
                (asc ''response'', JStr (asc ''250 OK''))]\<rparr>
   \<and> fst (test_email (example_server (Some working_transport)) bad_test_body)
     = \<lparr>status = 500,
        body = [(asc ''error'', JStr (asc ''Failed to send test email'')),
                (asc ''details'', JStr (asc ''Invalid email address format''))]\<rparr>"
proof -
  let ?srv = "example_server (Some working_transport)"
  have t: "transporter ?srv = Some working_transport" and f: "fetch_error ?srv = None"
    by (simp_all add: example_server_def)
  have e: "example_test_body (asc ''testEmail'') = Some (JStr (asc ''qa@example.com''))"
    and b: "bad_test_body (asc ''testEmail'') = Some (JStr (asc ''not-an-email''))"
    by (simp_all add: example_test_body_def bad_test_body_def)
  have g: "fst (send_email ?srv (emailData ?srv (Some (JStr (asc ''qa@example.com'')))))
     = \<lparr>status = 200,
        body = [(asc ''success'', JBool True), (asc ''messageId'', JStr (asc ''abc123'')),
                (asc ''response'', JStr (asc ''250 OK''))]\<rparr>"
    using example_test_valid [of ?srv]
      send_email_valid [OF t, of "emailData ?srv (Some (JStr (asc ''qa@example.com'')))"]
    by (simp add: valid_request_def working_transport_def)
  have "fst (test_email ?srv example_test_body)
     = \<lparr>status = 200,
        body = [(asc ''success'', JBool True), (asc ''messageId'', JStr (asc ''abc123'')),
                (asc ''response'', JStr (asc ''250 OK''))]\<rparr>"
    using C1_test_email_propagation [of example_test_body ?srv] e f g
    by (simp add: ok_def)
  moreover have "fst (test_email ?srv bad_test_body)
     = \<lparr>status = 500,
        body = [(asc ''error'', JStr (asc ''Failed to send test email'')),
                (asc ''details'', JStr (asc ''Invalid email address format''))]\<rparr>"
    using C1_test_email_propagation [of bad_test_body ?srv] b f bad_send
    by (simp add: ok_def)
  ultimately show ?thesis by simp
qed

text \<open>
  C2. When the transport is initialized, \<open>to\<close> matches the address shape, \<open>subject\<close> and
  \<open>html\<close> are truthy and the deliver call succeeds with a message id and a response
  string, the send-email handler answers 200 with the body
  \<open>{success: true, messageId, response}\<close> holding exactly the two strings the transport
  returned.
\<close>

theorem C2_send_email_success:
  assumes "transporter srv = Some t"
    and "regex_test emailRegex (b (asc ''to'')) = Some True"
    and "truthy (b (asc ''subject''))" and "truthy (b (asc ''html''))"
    and "t (mailOptions srv b) = Inr \<lparr>messageId = mid, response = r\<rparr>"
  shows "fst (send_email srv b) =
           \<lparr>status = 200,
            body = [(asc ''success'', JBool True), (asc ''messageId'', JStr mid),
                    (asc ''response'', JStr r)]\<rparr>"
  using assms by (simp add: send_email_valid)

theorem C2_witness:
  "fst (send_email (example_server (Some working_transport)) example_body) =
     \<lparr>status = 200,
      body = [(asc ''success'', JBool True), (asc ''messageId'', JStr (asc ''abc123'')),
              (asc ''response'', JStr (asc ''250 OK''))]\<rparr>"
  using C2_send_email_success [of "example_server (Some working_transport)" working_transport
      example_body "asc ''abc123''" "asc ''250 OK''"] example_regex
  by (simp add: example_server_def working_transport_def example_body_def)

text \<open>
  C3 (as stated: the \<open>code\<close> of the 500 response is the thrown error's code whenever
  the error has one). This fails for an error whose code is present as the empty string:
  the response carries "EMAIL_SEND_ERROR".
\<close>

theorem C3_counterexample:
  "valid_request example_body
   \<and> empty_code_transport (mailOptions (example_server (Some empty_code_transport)) example_body)
       = Inl \<lparr>err_message = asc ''Connection refused'', err_code = Some []\<rparr>
   \<and> fst (send_email (example_server (Some empty_code_transport)) example_body)
       = \<lparr>status = 500,
          body = [(asc ''error'', JStr (asc ''Failed to send email'')),
                  (asc ''details'', JStr (asc ''Connection refused'')),
                  (asc ''code'', JStr (asc ''EMAIL_SEND_ERROR''))]\<rparr>
   \<and> map_of (body (fst (send_email (example_server (Some empty_code_transport)) example_body)))
         (asc ''code'')
       \<noteq> Some (JStr [])"
proof -
  let ?srv = "example_server (Some empty_code_transport)"
  have t: "transporter ?srv = Some empty_code_transport"
    by (simp add: example_server_def)
  have "send_email ?srv example_body
      = (send_failure \<lparr>err_message = asc ''Connection refused'', err_code = Some []\<rparr>,
         [mailOptions ?srv example_body])"
    using example_valid send_email_valid [OF t, of example_body]
    by (simp add: valid_request_def empty_code_transport_def)
  then show ?thesis
    using example_valid by (simp add: send_failure_def str_or_def empty_code_transport_def)
qed

text \<open>
  C3 (amended). When a valid send-email request reaches the transport and the deliver
  call throws, the handler answers 500 with \<open>error\<close> "Failed to send email",
  \<open>details\<close> the message of the thrown error and \<open>code\<close> the error's code when that
  is truthy (present and not the empty string), otherwise "EMAIL_SEND_ERROR". The
  transport was called exactly once in that request, and no request calls it more than
  once.
\<close>

theorem C3_send_email_failure:
  assumes "transporter srv = Some t" and "valid_request b"
    and "t (mailOptions srv b) = Inl e"
  shows "fst (send_email srv b) =
           \<lparr>status = 500,
            body = [(asc ''error'', JStr (asc ''Failed to send email'')),
                    (asc ''details'', JStr (err_message e)),
                    (asc ''code'',
                     JStr (case err_code e of
                             None \<Rightarrow> asc ''EMAIL_SEND_ERROR''
                           | Some c \<Rightarrow> if c = [] then asc ''EMAIL_SEND_ERROR'' else c))]\<rparr>
       \<and> snd (send_email srv b) = [mailOptions srv b]
       \<and> (\<forall>srv' b'. length (snd (send_email srv' b')) \<le> 1)"
proof -
  have "send_email srv b = (send_failure e, [mailOptions srv b])"
    using assms by (simp add: valid_request_def send_email_valid)
  then show ?thesis
    using send_email_at_most_once by (simp add: send_failure_def str_or_def)
qed

theorem C3_witness:
  "fst (send_email (example_server (Some refusing_transport)) example_body) =
     \<lparr>status = 500,
      body = [(asc ''error'', JStr (asc ''Failed to send email'')),
              (asc ''details'', JStr (asc ''Connection refused'')),
              (asc ''code'', JStr (asc ''EMAIL_SEND_ERROR''))]\<rparr>
   \<and> length (snd (send_email (example_server (Some refusing_transport)) example_body)) = 1"
  using C3_send_email_failure [of "example_server (Some refusing_transport)" refusing_transport
      example_body "\<lparr>err_message = asc ''Connection refused'', err_code = None\<rparr>"] example_valid
  by (simp add: example_server_def refusing_transport_def)

text \<open>
  C4. Whenever the transport handle is null, GET /api/email-status responds 503 with
  status "unavailable" and an error message, and every POST /api/send-email responds 503
  without handing anything to the transport, whatever the request body is.
\<close>

theorem C4_uninitialized_transport_503:
  assumes "transporter srv = None"
  shows "status (fst (email_status srv)) = 503
       \<and> map_of (body (fst (email_status srv))) (asc ''status'') = Some (JStr (asc ''unavailable''))
       \<and> map_of (body (fst (email_status srv))) (asc ''error'')
           = Some (JStr (asc ''Email transporter not initialized''))
       \<and> (\<forall>b. status (fst (send_email srv b)) = 503 \<and> snd (send_email srv b) = [])"
  using assms by (simp add: email_status_def send_email_def json_error_def)

theorem C4_witness:
  "transporter (example_server None) = None
   \<and> status (fst (email_status (example_server None))) = 503
   \<and> status (fst (send_email (example_server None) example_body)) = 503
   \<and> snd (send_email (example_server None) example_body) = []"
  using C4_uninitialized_transport_503 [of "example_server None"]
  by (simp add: example_server_def)

text \<open>
  C5. With the transport initialized, a send-email request whose body lacks \<open>to\<close>,
  \<open>subject\<close> or \<open>html\<close> is answered 400 with an \<open>error\<close> field in the body, and nothing
  is handed to the transport.
\<close>

theorem C5_missing_field_400:
  assumes "transporter srv = Some t"
    and "b (asc ''to'') = None \<or> b (asc ''subject'') = None \<or> b (asc ''html'') = None"
  shows "status (fst (send_email srv b)) = 400
       \<and> map_of (body (fst (send_email srv b))) (asc ''error'')
           = Some (JStr (asc ''Missing required fields: to, subject, and html are required''))
       \<and> snd (send_email srv b) = []"
  using assms by (auto simp: send_email_def json_error_def)

theorem C5_witness:
  "(example_body (asc ''html'' := None)) (asc ''html'') = None
   \<and> status (fst (send_email (example_server (Some working_transport))
        (example_body (asc ''html'' := None)))) = 400
   \<and> snd (send_email (example_server (Some working_transport))
        (example_body (asc ''html'' := None))) = []"
  using C5_missing_field_400 [of "example_server (Some working_transport)" working_transport
      "example_body (asc ''html'' := None)"]
  by (simp add: example_server_def)

text \<open>
  C6 (as stated: whenever \<open>to\<close>, \<open>subject\<close> and \<open>html\<close> are present and \<open>to\<close> does not
  match the expression, the answer is 400 "Invalid email address format"). This fails
  with a null transporter, where the answer is 503, and for a request whose \<open>subject\<close>
  is present as the empty string, where the answer is the missing-fields error.
\<close>

theorem C6_counterexample:
  "regex_test emailRegex (bad_to_body (asc ''to'')) = Some False
   \<and> bad_to_body (asc ''subject'') = Some (JStr (asc ''Hi''))
   \<and> bad_to_body (asc ''html'') = Some (JStr (asc ''<p>hi</p>''))
   \<and> fst (send_email (example_server None) bad_to_body)
       = \<lparr>status = 503,
          body = [(asc ''error'',
                   JStr (asc ''Email service unavailable - transporter not initialized''))]\<rparr>
   \<and> (bad_to_body (asc ''subject'' \<mapsto> JStr [])) (asc ''subject'') = Some (JStr [])
   \<and> fst (send_email (example_server (Some working_transport))
            (bad_to_body (asc ''subject'' \<mapsto> JStr [])))
       = \<lparr>status = 400,
          body = [(asc ''error'',
                   JStr (asc ''Missing required fields: to, subject, and html are required''))]\<rparr>
   \<and> status (fst (send_email (example_server None) bad_to_body)) \<noteq> 400
   \<and> fst (send_email (example_server (Some working_transport))
            (bad_to_body (asc ''subject'' \<mapsto> JStr [])))
       \<noteq> \<lparr>status = 400,
            body = [(asc ''error'', JStr (asc ''Invalid email address format''))]\<rparr>"
  using bad_to_regex
  by (simp add: bad_to_body_def example_body_def send_email_def example_server_def
      json_error_def)

text \<open>
  C6 (amended). With the transport initialized: a request whose \<open>to\<close>, \<open>subject\<close> and
  \<open>html\<close> are truthy and on whose \<open>to\<close> the expression's test returns false is
  answered 400 with \<open>error\<close> "Invalid email address format", and nothing is handed to
  the transport. The missing-fields check comes first: a request with a falsy \<open>to\<close>,
  \<open>subject\<close> or \<open>html\<close> gets the missing-fields error whatever \<open>to\<close> looks like.
\<close>

theorem C6_invalid_address_400:
  assumes "transporter srv = Some t"
  shows "(truthy (b (asc ''to'')) \<and> truthy (b (asc ''subject'')) \<and> truthy (b (asc ''html''))
          \<and> regex_test emailRegex (b (asc ''to'')) = Some False
          \<longrightarrow> fst (send_email srv b)
                = \<lparr>status = 400,
                   body = [(asc ''error'', JStr (asc ''Invalid email address format''))]\<rparr>
              \<and> snd (send_email srv b) = [])
       \<and> (\<not> (truthy (b (asc ''to'')) \<and> truthy (b (asc ''subject''))
               \<and> truthy (b (asc ''html'')))
          \<longrightarrow> fst (send_email srv b)
                = \<lparr>status = 400,
                   body = [(asc ''error'',
                            JStr (asc ''Missing required fields: to, subject, and html are required''))]\<rparr>
              \<and> snd (send_email srv b) = [])"
  using assms by (simp add: send_email_def json_error_def)

theorem C6_witness:
  "fst (send_email (example_server (Some working_transport)) bad_to_body)
     = \<lparr>status = 400, body = [(asc ''error'', JStr (asc ''Invalid email address format''))]\<rparr>
   \<and> snd (send_email (example_server (Some working_transport)) bad_to_body) = []
   \<and> fst (send_email (example_server (Some working_transport))
          (bad_to_body (asc ''html'' := None)))
     = \<lparr>status = 400,
        body = [(asc ''error'',
                 JStr (asc ''Missing required fields: to, subject, and html are required''))]\<rparr>"
  using C6_invalid_address_400 [of "example_server (Some working_transport)" working_transport
      bad_to_body]
    C6_invalid_address_400 [of "example_server (Some working_transport)" working_transport
      "bad_to_body (asc ''html'' := None)"]
    bad_to_regex
  by (simp add: example_server_def bad_to_body_def example_body_def)

text \<open>
  C7. Over all routes (health, email-status, send-email, test-email, and the 404
  handler): every message handed to the transport has \<open>to\<close>, \<open>subject\<close> and \<open>html\<close>
  present (and truthy), and the address expression's test on its \<open>to\<close> returns true.
\<close>

theorem C7_only_validated_messages_delivered:
  assumes "m \<in> set (snd (handle srv req))"
  shows "mail_to m \<noteq> None \<and> mail_subject m \<noteq> None \<and> mail_html m \<noteq> None
       \<and> truthy (mail_to m) \<and> truthy (mail_subject m) \<and> truthy (mail_html m)
       \<and> regex_test emailRegex (mail_to m) = Some True"
proof -
  obtain b where "m \<in> set (snd (send_email srv b))"
    using assms handle_sent by blast
  then have "m = mailOptions srv b" and "truthy (b (asc ''to''))"
    and "truthy (b (asc ''subject''))" and "truthy (b (asc ''html''))"
    and "regex_test emailRegex (b (asc ''to'')) = Some True"
    using send_email_sent by blast+
  then show ?thesis
    by (simp add: mailOptions_def truthy_present)
qed

theorem C7_witness:
  "snd (handle (example_server (Some working_transport)) (PostTestEmail example_test_body)) \<noteq> []
   \<and> regex_test emailRegex
        (mail_to (hd (snd (handle (example_server (Some working_transport))
                          (PostTestEmail example_test_body))))) = Some True"
  using C7_only_validated_messages_delivered
    [of "hd (snd (handle (example_server (Some working_transport))
                          (PostTestEmail example_test_body)))"
        "example_server (Some working_transport)" "PostTestEmail example_test_body"]
    example_test_sent
  by simp

text \<open>
  C8 (as stated: the delivered \<open>from\<close> is the request's \<open>from\<close> whenever that field is
  present). This fails for a valid request whose \<open>from\<close> is present as the empty
  string: the delivered \<open>from\<close> is the default sender.
\<close>

theorem C8_counterexample:
  "valid_request empty_from_body
   \<and> empty_from_body (asc ''from'') = Some (JStr [])
   \<and> map mail_from (snd (send_email (example_server (Some working_transport)) empty_from_body))
     = [Some (JStr (0x22 # asc ''Expense Manager Pro'' @ 0x22
                    # asc '' <noreply@expensemanagerpro.com>''))]
   \<and> map mail_from (snd (send_email (example_server (Some working_transport)) empty_from_body))
     \<noteq> [empty_from_body (asc ''from'')]"
proof -
  have "transporter (example_server (Some working_transport)) = Some working_transport"
    by (simp add: example_server_def)
  then have "snd (send_email (example_server (Some working_transport)) empty_from_body)
      = [mailOptions (example_server (Some working_transport)) empty_from_body]"
    using empty_from_valid by (rule send_email_delivers)
  then show ?thesis
    using empty_from_valid example_default_from [of "Some working_transport"]
    by (simp add: mailOptions_def js_or_def empty_from_body_def)
qed

text \<open>
  C8 (amended). For a valid send-email request and an initialized transport, exactly one
  message is handed to the transport; it carries the request's \<open>to\<close>, \<open>subject\<close> and
  \<open>html\<close> unchanged, and its \<open>from\<close> is the request's \<open>from\<close> when that is truthy,
  otherwise the string \<open>"name" <address>\<close> built from the configured from-name and
  from-address (or their built-in defaults when unset or empty).
\<close>

theorem C8_message_fields:
  assumes "transporter srv = Some t" and "valid_request b"
  shows "\<exists>m. snd (send_email srv b) = [m]
           \<and> mail_to m = b (asc ''to'') \<and> mail_subject m = b (asc ''subject'')
           \<and> mail_html m = b (asc ''html'')
           \<and> mail_from m =
               (if truthy (b (asc ''from'')) then b (asc ''from'')
                else Some (JStr (0x22
                       # str_or (VITE_EMAIL_FROM_NAME srv) (asc ''Expense Manager Pro'')
                       @ 0x22 # asc '' <''
                       @ str_or (VITE_EMAIL_FROM_ADDRESS srv) (asc ''noreply@expensemanagerpro.com'')
                       @ asc ''>'')))"
  using send_email_delivers [OF assms] by (simp add: mailOptions_def js_or_def default_from_def)

theorem C8_witness:
  "map mail_from (snd (send_email (example_server (Some working_transport)) with_from_body))
     = [Some (JStr (asc ''Ann <ann@example.com>''))]
   \<and> map mail_to (snd (send_email (example_server (Some working_transport)) with_from_body))
     = [Some (JStr (asc ''user@example.com''))]"
  using C8_message_fields [of "example_server (Some working_transport)" working_transport
      with_from_body] with_from_valid
  by (auto simp: example_server_def with_from_body_def example_body_def)

text \<open>
  C9. The required fields are tested for truthiness, not for the existence of the key:
  a send-email request in which \<open>to\<close>, \<open>subject\<close> or \<open>html\<close> is present with a falsy
  value (the empty string, 0, false, null) is answered 400 with the missing-fields error
  and nothing is handed to the transport: the handler does exactly what it does when
  that key is absent. The transport is initialized, as it is for every request the
  process serves: the module assigns \<open>transporter\<close> while it loads and rethrows a
  failure before any route exists.
\<close>

theorem C9_falsy_field_400:
  assumes "transporter srv = Some t"
    and "k = asc ''to'' \<or> k = asc ''subject'' \<or> k = asc ''html''"
    and "b k = Some v" and "\<not> truthy (Some v)"
  shows "fst (send_email srv b)
           = \<lparr>status = 400,
              body = [(asc ''error'',
                       JStr (asc ''Missing required fields: to, subject, and html are required''))]\<rparr>
       \<and> snd (send_email srv b) = []
       \<and> send_email srv b = send_email srv (b (k := None))"
  using assms by (auto simp: send_email_def json_error_def)

theorem C9_witness:
  "\<not> truthy (Some (JStr [])) \<and> \<not> truthy (Some (JNum 0)) \<and> \<not> truthy (Some (JBool False))
   \<and> fst (send_email (example_server (Some working_transport)) empty_html_body)
       = \<lparr>status = 400,
          body = [(asc ''error'',
                   JStr (asc ''Missing required fields: to, subject, and html are required''))]\<rparr>
   \<and> fst (send_email (example_server (Some working_transport))
            (example_body (asc ''subject'' \<mapsto> JNum 0)))
       = \<lparr>status = 400,
          body = [(asc ''error'',
                   JStr (asc ''Missing required fields: to, subject, and html are required''))]\<rparr>"
proof -
  let ?srv = "example_server (Some working_transport)"
  have t: "transporter ?srv = Some working_transport"
    by (simp add: example_server_def)
  have h: "empty_html_body (asc ''html'') = Some (JStr [])"
    by (simp add: empty_html_body_def)
  have s: "(example_body (asc ''subject'' \<mapsto> JNum 0)) (asc ''subject'') = Some (JNum 0)"
    by simp
  show ?thesis
    using C9_falsy_field_400
        [of ?srv working_transport "asc ''html''" empty_html_body "JStr []", THEN conjunct1]
      C9_falsy_field_400
        [of ?srv working_transport "asc ''subject''"
          "example_body (asc ''subject'' \<mapsto> JNum 0)" "JNum 0", THEN conjunct1]
      t h s
    by simp
qed

text \<open>
  C10. For a valid send-email request and an initialized transport, exactly one message
  is handed to the transport; when the request's \<open>from\<close> is falsy (the empty string
  included) the message's \<open>from\<close> is the default sender, and when the request's
  \<open>text\<close> is absent or falsy the message's \<open>text\<close> is null, not undefined.
\<close>

theorem C10_falsy_from_and_text:
  assumes "transporter srv = Some t" and "valid_request b"
  shows "\<exists>m. snd (send_email srv b) = [m]
           \<and> (\<not> truthy (b (asc ''from'')) \<longrightarrow> mail_from m = Some (JStr (default_from srv)))
           \<and> (\<not> truthy (b (asc ''text'')) \<longrightarrow> mail_text m = Some JNull)"
  using send_email_delivers [OF assms] by (simp add: mailOptions_def js_or_def)

theorem C10_witness:
  "map mail_from (snd (send_email (example_server (Some working_transport)) empty_from_body))
     = [Some (JStr (default_from (example_server (Some working_transport))))]
   \<and> map mail_text (snd (send_email (example_server (Some working_transport)) empty_from_body))
     = [Some JNull]"
  using C10_falsy_from_and_text [of "example_server (Some working_transport)" working_transport
      empty_from_body] empty_from_valid
  by (auto simp: example_server_def empty_from_body_def example_body_def)

end
